theory Spec2Isabelle
  imports Main "HOL-Library.Word"
begin

unbundle bit_operations_syntax

section \<open>Machine types\<close>

text \<open>
  The client works on \<open>uint8_t\<close>, \<open>uint16_t\<close> and 32-bit register values. A register
  value is only ever copied (\<open>std::memcpy\<close>), never computed with, so a \<open>float\<close> and
  an \<open>int32_t\<close> are both modelled by their 32-bit pattern: for a \<open>float\<close> the IEEE-754
  binary32 encoding, for an \<open>int32_t\<close> the two's complement one (read by \<open>sint\<close>).
  Sizes (\<open>size_t\<close>) and the \<open>int\<close> products \<open>count * 4\<close> are natural numbers:
  \<open>count\<close> is at most 65535, so the product never leaves a 32-bit \<open>int\<close>.
\<close>

type_synonym u8 = "8 word"
type_synonym u16 = "16 word"
type_synonym float32 = "32 word"
type_synonym int32 = "32 word"

section \<open>Memory\<close>

text \<open>
  \<open>std::memcpy\<close> copies object representations. On the hosts the library is built for
  (x86, x86-64 and little-endian ARM; the Windows branch of the constructor is one of them)
  a 4-byte object lies in memory with its least significant byte first.
  \<open>object_bytes\<close> is the representation of one 32-bit object, \<open>object_value\<close> the
  object that four consecutive bytes hold; \<open>array_bytes\<close> and \<open>array_values\<close> are
  the same for the contiguous storage of a \<open>std::vector\<close>.
\<close>

definition object_bytes :: "32 word \<Rightarrow> u8 list" where
  "object_bytes v = [ucast v, ucast (drop_bit 8 v), ucast (drop_bit 16 v), ucast (drop_bit 24 v)]"

definition object_value :: "u8 \<Rightarrow> u8 \<Rightarrow> u8 \<Rightarrow> u8 \<Rightarrow> 32 word" where
  "object_value b0 b1 b2 b3 =
     ucast b0 OR push_bit 8 (ucast b1) OR push_bit 16 (ucast b2) OR push_bit 24 (ucast b3)"

definition array_bytes :: "32 word list \<Rightarrow> u8 list" where
  "array_bytes vs = concat (map object_bytes vs)"

fun array_values :: "u8 list \<Rightarrow> 32 word list" where
  "array_values (b0 # b1 # b2 # b3 # bs) = object_value b0 b1 b2 b3 # array_values bs"
| "array_values bs = []"

text \<open>
  \<open>memcpy dst off src n\<close> is the destination after \<open>std::memcpy(dst + off, src, n)\<close>:
  \<open>n\<close> bytes from offset \<open>off\<close> on are replaced by the first \<open>n\<close> bytes of the source.
  Every call of the client has \<open>off + n \<le> length dst\<close> and, behind its guard, \<open>n \<le> length src\<close>.
\<close>

definition memcpy :: "u8 list \<Rightarrow> nat \<Rightarrow> u8 list \<Rightarrow> nat \<Rightarrow> u8 list" where
  "memcpy dst off src n = take off dst @ take n src @ drop (off + n) dst"

section \<open>Payload codec\<close>

text \<open>
  \<open>RMC75EClient::buildReadPayload\<close> (RMC75EClient.cpp, lines 129-139): a vector of six
  zero bytes, then six assignments by index.
\<close>

definition buildReadPayload :: "u16 \<Rightarrow> u16 \<Rightarrow> u16 \<Rightarrow> u8 list" where
  "buildReadPayload file element count =
     (replicate 6 0)
       [0 := ucast (file AND 0xFF),
        1 := ucast (drop_bit 8 file),
        2 := ucast (element AND 0xFF),
        3 := ucast (drop_bit 8 element),
        4 := ucast (count AND 0xFF),
        5 := ucast (drop_bit 8 count)]"

text \<open>
  \<open>RMC75EClient::buildWritePayload\<close> (lines 141-153): a vector of \<open>6 + count * 4\<close> zero
  bytes, the same six assignments, then \<open>count * 4\<close> bytes copied from the caller's array
  to offset 6. The array comes as a \<open>const void*\<close>; both callers pass the storage of
  their vector and a count that is at most its length.
\<close>

definition buildWritePayload :: "u16 \<Rightarrow> u16 \<Rightarrow> 32 word list \<Rightarrow> u16 \<Rightarrow> u8 list" where
  "buildWritePayload file element values count =
     memcpy
       ((replicate (6 + unat count * 4) 0)
          [0 := ucast (file AND 0xFF),
           1 := ucast (drop_bit 8 file),
           2 := ucast (element AND 0xFF),
           3 := ucast (drop_bit 8 element),
           4 := ucast (count AND 0xFF),
           5 := ucast (drop_bit 8 count)])
       6 (array_bytes values) (unat count * 4)"

section \<open>The external library: sessions, requests, responses\<close>

text \<open>
  Sessions and the message router belong to the CIP library the client is built on. A
  session is an opaque value of a type \<open>'s\<close>. Creating one
  (\<open>std::make_shared<SessionInfo>(plcAddress_, port_)\<close>) either gives a session or
  throws; the outcome is a parameter of \<open>connect\<close>, with \<open>Inl\<close> carrying the
  exception's \<open>what()\<close>. \<open>messageRouter_.sendRequest\<close> is a parameter too: it maps the
  request to a response, or throws.
\<close>

datatype epath = EPath (classId: u16) (objectId: u16)

datatype 's request =
  SendRequest (req_session: 's) (req_service: u8) (req_path: epath) (req_payload: "u8 list")

record response =
  getGeneralStatusCode :: u8
  getAdditionalStatus :: "u16 list"
  getData :: "u8 list"

type_synonym 's session_factory = "string \<Rightarrow> u16 \<Rightarrow> string + 's"
type_synonym 's transport = "'s request \<Rightarrow> string + response"

text \<open>
  Modelled from the spec: \<open>GeneralStatusCodes::SUCCESS\<close> is declared in the library's
  \<open>cip/GeneralStatusCodes.h\<close>, which is not part of the repository; the spec's glossary
  gives the value: "the CIP-standard outcome code of a request; 0 denotes success".
\<close>

definition SUCCESS :: u8 where
  "SUCCESS = 0"

section \<open>The client\<close>

text \<open>Constants of \<open>RMC75EClient.h\<close>, lines 22-31.\<close>

definition REGISTER_MAP_CLASS :: u16 where
  "REGISTER_MAP_CLASS = 0xC0"

definition REGISTER_MAP_INSTANCE :: u16 where
  "REGISTER_MAP_INSTANCE = 0x01"

definition SVC_READ_LSB :: u8 where
  "SVC_READ_LSB = 0x4B"

definition SVC_WRITE_LSB :: u8 where
  "SVC_WRITE_LSB = 0x4C"

definition SVC_READ_MSB :: u8 where
  "SVC_READ_MSB = 0x4D"

definition SVC_WRITE_MSB :: u8 where
  "SVC_WRITE_MSB = 0x4E"

text \<open>
  The data members of the class. \<open>sessionInfo_\<close> is a shared pointer: \<open>None\<close> is the
  null pointer. \<open>messageRouter_\<close> has no state of its own in the model; it is the
  transport passed to each operation.
\<close>

record 's client =
  plcAddress :: string
  port :: u16
  sessionInfo :: "'s option"

text \<open>
  Every failure of the client is a \<open>std::runtime_error\<close> that differs from the others
  by its message only. The model keeps the throw sites apart by constructor and the data
  each message is built from; \<open>what\<close> below builds the message.
\<close>

datatype error =
    ConnectFailed string string
  | NotConnected
  | RequestFailed u8 u8 "u16 list"
  | SizeMismatch string nat nat
  | TransportFailure string

subsection \<open>Messages\<close>

text \<open>
  \<open>operator<<\<close> on a \<open>std::ostringstream\<close>: an integer in decimal, and after
  \<open>std::hex\<close> (which stays set on the stream) in lower-case hexadecimal, with neither
  prefix nor leading zeros.
\<close>

definition digit_char :: "nat \<Rightarrow> char" where
  "digit_char d = ''0123456789abcdef'' ! d"

fun show_hex :: "nat \<Rightarrow> string" where
  "show_hex n = (if n < 16 then [digit_char n] else show_hex (n div 16) @ [digit_char (n mod 16)])"

fun show_dec :: "nat \<Rightarrow> string" where
  "show_dec n = (if n < 10 then [digit_char n] else show_dec (n div 10) @ [digit_char (n mod 10)])"

declare show_hex.simps [simp del]

declare show_dec.simps [simp del]

text \<open>The loop of lines 174-177 over the additional status words, from index \<open>i\<close> on.\<close>

fun show_additional :: "nat \<Rightarrow> u16 list \<Rightarrow> string" where
  "show_additional i [] = []"
| "show_additional i (w # ws) =
     (if i > 0 then '', '' else []) @ ''0x'' @ show_hex (unat w) @ show_additional (Suc i) ws"

fun what :: "error \<Rightarrow> string" where
  "what (ConnectFailed address msg) = ''Failed to connect to RMC75E at '' @ address @ '': '' @ msg"
| "what NotConnected = ''Not connected - call connect() first''"
| "what (RequestFailed service status additional) =
     ''CIP request failed: service=0x'' @ show_hex (unat service)
       @ '' status=0x'' @ show_hex (unat status)
       @ (if additional \<noteq> [] then '' additional=['' @ show_additional 0 additional @ '']'' else [])"
| "what (SizeMismatch accessor expected got) =
     accessor @ '': expected '' @ show_dec expected @ '' bytes, got '' @ show_dec got"
| "what (TransportFailure msg) = msg"

subsection \<open>Connection management\<close>

text \<open>
  The constructor (lines 19-30) stores address and port; the session pointer starts null.
  The default port of the declaration is \<open>0xAF12\<close>. Log output is not modelled, neither
  here nor below, and the Winsock start-up of the Windows build is left out.
\<close>

definition RMC75EClient :: "string \<Rightarrow> u16 \<Rightarrow> 's client" where
  "RMC75EClient address p = \<lparr>plcAddress = address, port = p, sessionInfo = None\<rparr>"

definition default_port :: u16 where
  "default_port = 0xAF12"

text \<open>
  \<open>connect\<close> (lines 39-52) returns normally or throws, and leaves a client state in
  both cases.
\<close>

definition connect :: "'s session_factory \<Rightarrow> 's client \<Rightarrow> (error + unit) \<times> 's client" where
  "connect make_session c =
     (case sessionInfo c of
        Some s \<Rightarrow> (Inr (), c)
      | None \<Rightarrow>
          (case make_session (plcAddress c) (port c) of
             Inr s \<Rightarrow> (Inr (), c\<lparr>sessionInfo := Some s\<rparr>)
           | Inl msg \<Rightarrow> (Inl (ConnectFailed (plcAddress c) msg), c\<lparr>sessionInfo := None\<rparr>)))"

definition disconnect :: "'s client \<Rightarrow> 's client" where
  "disconnect c = (case sessionInfo c of Some s \<Rightarrow> c\<lparr>sessionInfo := None\<rparr> | None \<Rightarrow> c)"

definition isConnected :: "'s client \<Rightarrow> bool" where
  "isConnected c = (sessionInfo c \<noteq> None)"

text \<open>
  A run of the connection interface: \<open>Connect\<close> carries the outcome that session
  creation has at that call, \<open>perform\<close> gives the client state after one call, and
  \<open>changes\<close> keeps the calls of a sequence that altered the state they met.
\<close>

datatype 's call = Connect "'s session_factory" | Disconnect

fun perform :: "'s client \<Rightarrow> 's call \<Rightarrow> 's client" where
  "perform c (Connect make_session) = snd (connect make_session c)"
| "perform c Disconnect = disconnect c"

fun changes :: "'s client \<Rightarrow> 's call list \<Rightarrow> 's call list" where
  "changes c [] = []"
| "changes c (x # xs) = (if perform c x = c then [] else [x]) @ changes (perform c x) xs"

subsection \<open>Request executor\<close>

text \<open>
  \<open>executeRequest\<close> (lines 155-184). The second component of the result lists the
  requests handed to the message router during the call, in order. An exception of the
  router passes through the function unchanged.
\<close>

definition executeRequest ::
  "'s transport \<Rightarrow> 's client \<Rightarrow> u8 \<Rightarrow> u8 list \<Rightarrow> (error + u8 list) \<times> 's request list" where
  "executeRequest send c service payload =
     (case sessionInfo c of
        None \<Rightarrow> (Inl NotConnected, [])
      | Some s \<Rightarrow>
          (let rq = SendRequest s service (EPath REGISTER_MAP_CLASS REGISTER_MAP_INSTANCE) payload in
           case send rq of
             Inl msg \<Rightarrow> (Inl (TransportFailure msg), [rq])
           | Inr resp \<Rightarrow>
               if getGeneralStatusCode resp \<noteq> SUCCESS
               then (Inl (RequestFailed service (getGeneralStatusCode resp) (getAdditionalStatus resp)), [rq])
               else (Inr (getData resp), [rq])))"

subsection \<open>Typed accessors\<close>

text \<open>
  \<open>readFloat\<close> (lines 69-85) and \<open>readInt32\<close> (lines 95-111): the result vector holds
  \<open>count\<close> zero objects, and \<open>count * 4\<close> bytes of the response are copied over its
  storage.
\<close>

definition readFloat ::
  "'s transport \<Rightarrow> 's client \<Rightarrow> u16 \<Rightarrow> u16 \<Rightarrow> u16 \<Rightarrow> (error + float32 list) \<times> 's request list" where
  "readFloat send c file element count =
     (let payload = buildReadPayload file element count;
          (r, sent) = executeRequest send c SVC_READ_LSB payload
      in case r of
           Inl e \<Rightarrow> (Inl e, sent)
         | Inr raw \<Rightarrow>
             if length raw < unat count * 4
             then (Inl (SizeMismatch ''readFloat'' (unat count * 4) (length raw)), sent)
             else (Inr (array_values
                          (memcpy (array_bytes (replicate (unat count) 0)) 0 raw (unat count * 4))),
                   sent))"

definition readInt32 ::
  "'s transport \<Rightarrow> 's client \<Rightarrow> u16 \<Rightarrow> u16 \<Rightarrow> u16 \<Rightarrow> (error + int32 list) \<times> 's request list" where
  "readInt32 send c file element count =
     (let payload = buildReadPayload file element count;
          (r, sent) = executeRequest send c SVC_READ_LSB payload
      in case r of
           Inl e \<Rightarrow> (Inl e, sent)
         | Inr raw \<Rightarrow>
             if length raw < unat count * 4
             then (Inl (SizeMismatch ''readInt32'' (unat count * 4) (length raw)), sent)
             else (Inr (array_values
                          (memcpy (array_bytes (replicate (unat count) 0)) 0 raw (unat count * 4))),
                   sent))"

text \<open>
  \<open>writeFloat\<close> (lines 87-93) and \<open>writeInt32\<close> (lines 113-119):
  \<open>static_cast<uint16_t>(values.size())\<close> is \<open>of_nat (length values)\<close> on \<open>u16\<close>.
  The response data is dropped.
\<close>

definition writeFloat ::
  "'s transport \<Rightarrow> 's client \<Rightarrow> u16 \<Rightarrow> u16 \<Rightarrow> float32 list \<Rightarrow> (error + unit) \<times> 's request list" where
  "writeFloat send c file element values =
     (let payload = buildWritePayload file element values (of_nat (length values));
          (r, sent) = executeRequest send c SVC_WRITE_LSB payload
      in case r of Inl e \<Rightarrow> (Inl e, sent) | Inr raw \<Rightarrow> (Inr (), sent))"

definition writeInt32 ::
  "'s transport \<Rightarrow> 's client \<Rightarrow> u16 \<Rightarrow> u16 \<Rightarrow> int32 list \<Rightarrow> (error + unit) \<times> 's request list" where
  "writeInt32 send c file element values =
     (let payload = buildWritePayload file element values (of_nat (length values));
          (r, sent) = executeRequest send c SVC_WRITE_LSB payload
      in case r of Inl e \<Rightarrow> (Inl e, sent) | Inr raw \<Rightarrow> (Inr (), sent))"

definition sendRawRequest ::
  "'s transport \<Rightarrow> 's client \<Rightarrow> u8 \<Rightarrow> u8 list \<Rightarrow> (error + u8 list) \<times> 's request list" where
  "sendRawRequest send c service data = executeRequest send c service data"

section \<open>Word lemmas\<close>

lemma unat_low_byte: "unat (ucast (w AND 0xFF :: u16) :: u8) = unat w mod 256"
proof -
  have "w AND 0xFF = take_bit 8 w"
    by (simp add: take_bit_eq_mask mask_eq_exp_minus_1)
  then show ?thesis
    by (simp add: unsigned_ucast_eq unsigned_take_bit_eq take_bit_eq_mod unat_mod_distrib)
qed

lemma unat_high_byte: "unat (ucast (drop_bit 8 (w :: u16)) :: u8) = unat w div 256"
proof -
  have "unat w < 65536"
    using unsigned_less [of w, where ?'a = nat] by simp
  then have "unat w div 256 < 256"
    by simp
  then show ?thesis
    by (simp add: unsigned_ucast_eq unsigned_drop_bit_eq drop_bit_eq_div take_bit_eq_mod
        unat_div_distrib)
qed

lemma header_bytes:
  "(replicate (6 + n) (0 :: u8))[0 := a, 1 := b, 2 := c, 3 := d, 4 := e, 5 := f] =
     [a, b, c, d, e, f] @ replicate n 0"
  by (simp add: eval_nat_numeral)

lemma buildReadPayload_bytes:
  "buildReadPayload file element count =
     [ucast (file AND 0xFF), ucast (drop_bit 8 file),
      ucast (element AND 0xFF), ucast (drop_bit 8 element),
      ucast (count AND 0xFF), ucast (drop_bit 8 count)]"
  using header_bytes [of 0] by (simp add: buildReadPayload_def)

section \<open>Memory lemmas\<close>

lemma length_object_bytes: "length (object_bytes v) = 4"
  by (simp add: object_bytes_def)

lemma length_array_bytes: "length (array_bytes vs) = 4 * length vs"
  by (induction vs) (simp_all add: array_bytes_def length_object_bytes)

lemma array_bytes_Cons: "array_bytes (v # vs) = object_bytes v @ array_bytes vs"
  by (simp add: array_bytes_def)

lemma array_bytes_Nil: "array_bytes [] = []"
  by (simp add: array_bytes_def)

lemma object_value_bytes:
  "object_value (ucast v) (ucast (drop_bit 8 v)) (ucast (drop_bit 16 v)) (ucast (drop_bit 24 v)) = v"
  unfolding object_value_def
proof (rule bit_word_eqI)
  fix n :: nat
  assume "n < LENGTH(32)"
  then have n: "n < 32" by simp
  consider "n < 8" | "8 \<le> n" "n < 16" | "16 \<le> n" "n < 24" | "24 \<le> n" "n < 32"
    using n by linarith
  then show "bit (ucast (ucast v :: u8) OR push_bit 8 (ucast (ucast (drop_bit 8 v) :: u8)) OR
           push_bit 16 (ucast (ucast (drop_bit 16 v) :: u8)) OR
           push_bit 24 (ucast (ucast (drop_bit 24 v) :: u8)) :: 32 word) n = bit v n"
    by cases (auto simp: bit_simps)
qed

lemma array_values_bytes_append: "array_values (array_bytes vs @ bs) = vs @ array_values bs"
  by (induction vs) (simp_all add: array_bytes_Cons array_bytes_Nil object_bytes_def object_value_bytes)

lemma array_values_bytes: "array_values (array_bytes vs) = vs"
  using array_values_bytes_append [of vs "[]"] by simp

lemma take_array_bytes: "take (4 * n) (array_bytes vs) = array_bytes (take n vs)"
proof (induction vs arbitrary: n)
  case Nil
  then show ?case by (simp add: array_bytes_Nil)
next
  case (Cons v vs)
  show ?case
  proof (cases n)
    case 0
    then show ?thesis by (simp add: array_bytes_Nil)
  next
    case (Suc m)
    then show ?thesis
      using Cons.IH [of m] by (simp add: array_bytes_Cons length_object_bytes)
  qed
qed

lemma length_array_values: "length (array_values bs) = length bs div 4"
  by (induction bs rule: array_values.induct) simp_all

lemma memcpy_result:
  "n * 4 \<le> length raw \<Longrightarrow>
     memcpy (array_bytes (replicate n 0)) 0 raw (n * 4) = take (n * 4) raw"
  by (simp add: memcpy_def length_array_bytes)

lemma buildWritePayload_bytes:
  "buildWritePayload file element values count =
     buildReadPayload file element count @ array_bytes (take (unat count) values)"
proof -
  have "take (unat count * 4) (array_bytes values) = array_bytes (take (unat count) values)"
    using take_array_bytes [of "unat count" "values"] by (simp add: mult.commute)
  then show ?thesis
    unfolding buildWritePayload_def memcpy_def header_bytes buildReadPayload_bytes
    by simp
qed

lemma unat_object_bytes:
  "map unat (object_bytes v) =
     [unat v mod 256, unat v div 256 mod 256, unat v div 65536 mod 256, unat v div 16777216]"
proof -
  have "unat v < 4294967296"
    using unsigned_less [of v, where ?'a = nat] by simp
  then have "unat v div 16777216 < 256"
    by simp
  then show ?thesis
    by (simp add: object_bytes_def unsigned_ucast_eq unsigned_drop_bit_eq drop_bit_eq_div
        take_bit_eq_mod unat_div_distrib)
qed

lemma unat_array_bytes:
  "map unat (array_bytes vs) =
     concat (map (\<lambda>v. [unat v mod 256, unat v div 256 mod 256, unat v div 65536 mod 256,
                         unat v div 16777216]) vs)"
  by (induction vs) (simp_all add: array_bytes_Cons array_bytes_Nil unat_object_bytes)

lemma unat_count_cast: "unat (of_nat n :: u16) = n mod 65536"
  by (simp add: unat_of_nat)

section \<open>Connection lemmas\<close>

lemma connect_connected: "isConnected c \<Longrightarrow> connect make_session c = (Inr (), c)"
  by (auto simp: connect_def isConnected_def)

lemma disconnect_disconnected: "\<not> isConnected c \<Longrightarrow> disconnect c = c"
  by (simp add: disconnect_def isConnected_def)

lemma isConnected_disconnect: "\<not> isConnected (disconnect c)"
  by (simp add: disconnect_def isConnected_def split: option.splits)

lemma connect_success: "fst (connect make_session c) = Inr () \<Longrightarrow> isConnected (snd (connect make_session c))"
  by (auto simp: connect_def isConnected_def split: option.splits sum.splits)

lemma connect_failure:
  assumes "fst (connect make_session c) = Inl e"
  shows "snd (connect make_session c) = c" and "sessionInfo c = None"
    and "\<exists>msg. make_session (plcAddress c) (port c) = Inl msg \<and> e = ConnectFailed (plcAddress c) msg"
  using assms by (auto simp: connect_def split: option.splits sum.splits)

lemma connect_disconnected:
  "sessionInfo c = None \<Longrightarrow>
     connect make_session c =
       (case make_session (plcAddress c) (port c) of
          Inr s \<Rightarrow> (Inr (), c\<lparr>sessionInfo := Some s\<rparr>)
        | Inl msg \<Rightarrow> (Inl (ConnectFailed (plcAddress c) msg), c))"
  by (simp add: connect_def split: sum.splits)

lemma perform_changed:
  "perform c x \<noteq> c \<Longrightarrow> isConnected (perform c x) = (\<exists>make_session. x = Connect make_session)"
proof (cases x)
  case (Connect make_session)
  assume "perform c x \<noteq> c"
  then have "snd (connect make_session c) \<noteq> c"
    using Connect by simp
  then have "isConnected (snd (connect make_session c))"
    by (auto simp: connect_def isConnected_def split: option.splits sum.splits)
  then show ?thesis
    using Connect by simp
next
  case Disconnect
  then show ?thesis
    by (simp add: isConnected_disconnect)
qed

lemma isConnected_after:
  "isConnected (foldl perform c calls) =
     (if changes c calls = [] then isConnected c
      else \<exists>make_session. last (changes c calls) = Connect make_session)"
proof (induction calls arbitrary: c)
  case Nil
  then show ?case by simp
next
  case (Cons x xs)
  show ?case
  proof (cases "perform c x = c")
    case True
    then show ?thesis
      using Cons.IH [of c] by simp
  next
    case False
    then show ?thesis
      using Cons.IH [of "perform c x"] perform_changed [OF False] by simp
  qed
qed

section \<open>Executor lemmas\<close>

lemma executeRequest_connected:
  "sessionInfo c = Some s \<Longrightarrow>
     executeRequest send c service payload =
       (case send (SendRequest s service (EPath REGISTER_MAP_CLASS REGISTER_MAP_INSTANCE) payload) of
          Inl msg \<Rightarrow>
            (Inl (TransportFailure msg),
             [SendRequest s service (EPath REGISTER_MAP_CLASS REGISTER_MAP_INSTANCE) payload])
        | Inr resp \<Rightarrow>
            (if getGeneralStatusCode resp \<noteq> SUCCESS
             then Inl (RequestFailed service (getGeneralStatusCode resp) (getAdditionalStatus resp))
             else Inr (getData resp),
             [SendRequest s service (EPath REGISTER_MAP_CLASS REGISTER_MAP_INSTANCE) payload]))"
  by (simp add: executeRequest_def Let_def split: sum.splits)

lemma executeRequest_success:
  "sessionInfo c = Some s \<Longrightarrow>
   send (SendRequest s service (EPath REGISTER_MAP_CLASS REGISTER_MAP_INSTANCE) payload) = Inr resp \<Longrightarrow>
   getGeneralStatusCode resp = SUCCESS \<Longrightarrow>
     executeRequest send c service payload =
       (Inr (getData resp),
        [SendRequest s service (EPath REGISTER_MAP_CLASS REGISTER_MAP_INSTANCE) payload])"
  by (simp add: executeRequest_connected)

lemma copied_values:
  "n * 4 \<le> length raw \<Longrightarrow>
     array_values (memcpy (array_bytes (replicate n 0)) 0 raw (n * 4)) = array_values (take (4 * n) raw)"
  by (simp add: memcpy_result mult.commute)

lemma length_copied_values:
  "4 * n \<le> length raw \<Longrightarrow> length (array_values (take (4 * n) raw)) = n"
  by (simp add: length_array_values min_absorb2)

section \<open>Accessor lemmas\<close>

lemma executeRequest_disconnected:
  "sessionInfo c = None \<Longrightarrow> executeRequest send c service payload = (Inl NotConnected, [])"
  by (simp add: executeRequest_def)

lemma executeRequest_sent:
  "snd (executeRequest send c service payload) =
     (case sessionInfo c of
        None \<Rightarrow> []
      | Some s \<Rightarrow> [SendRequest s service (EPath 0xC0 0x01) payload])"
  by (simp add: executeRequest_def Let_def REGISTER_MAP_CLASS_def REGISTER_MAP_INSTANCE_def
      split: option.splits sum.splits)

lemma readFloat_sent:
  "snd (readFloat send c file element count) =
     snd (executeRequest send c SVC_READ_LSB (buildReadPayload file element count))"
  by (simp add: readFloat_def Let_def split: prod.splits sum.splits)

lemma readInt32_sent:
  "snd (readInt32 send c file element count) =
     snd (executeRequest send c SVC_READ_LSB (buildReadPayload file element count))"
  by (simp add: readInt32_def Let_def split: prod.splits sum.splits)

lemma writeFloat_sent:
  "snd (writeFloat send c file element values) =
     snd (executeRequest send c SVC_WRITE_LSB
            (buildWritePayload file element values (of_nat (length values))))"
  by (simp add: writeFloat_def Let_def split: prod.splits sum.splits)

lemma writeInt32_sent:
  "snd (writeInt32 send c file element values) =
     snd (executeRequest send c SVC_WRITE_LSB
            (buildWritePayload file element values (of_nat (length values))))"
  by (simp add: writeInt32_def Let_def split: prod.splits sum.splits)

lemma readFloat_failure:
  "fst (executeRequest send c SVC_READ_LSB (buildReadPayload file element count)) = Inl e \<Longrightarrow>
     fst (readFloat send c file element count) = Inl e"
  by (cases "executeRequest send c SVC_READ_LSB (buildReadPayload file element count)")
    (auto simp: readFloat_def)

lemma readInt32_failure:
  "fst (executeRequest send c SVC_READ_LSB (buildReadPayload file element count)) = Inl e \<Longrightarrow>
     fst (readInt32 send c file element count) = Inl e"
  by (cases "executeRequest send c SVC_READ_LSB (buildReadPayload file element count)")
    (auto simp: readInt32_def)

lemma writeFloat_failure:
  "fst (executeRequest send c SVC_WRITE_LSB
          (buildWritePayload file element values (of_nat (length values)))) = Inl e \<Longrightarrow>
     fst (writeFloat send c file element values) = Inl e"
  by (cases "executeRequest send c SVC_WRITE_LSB
               (buildWritePayload file element values (of_nat (length values)))")
    (auto simp: writeFloat_def)

lemma writeInt32_failure:
  "fst (executeRequest send c SVC_WRITE_LSB
          (buildWritePayload file element values (of_nat (length values)))) = Inl e \<Longrightarrow>
     fst (writeInt32 send c file element values) = Inl e"
  by (cases "executeRequest send c SVC_WRITE_LSB
               (buildWritePayload file element values (of_nat (length values)))")
    (auto simp: writeInt32_def)

lemma show_additional_includes:
  "w \<in> set ws \<Longrightarrow> \<exists>pre post. show_additional i ws = pre @ ''0x'' @ show_hex (unat w) @ post"
proof (induction ws arbitrary: i)
  case Nil
  then show ?case by simp
next
  case (Cons a ws)
  show ?case
  proof (cases "w = a")
    case True
    have "show_additional i (a # ws) =
        (if i > 0 then '', '' else []) @ ''0x'' @ show_hex (unat w) @ show_additional (Suc i) ws"
      using True by simp
    then show ?thesis by blast
  next
    case False
    then have "w \<in> set ws"
      using Cons.prems by simp
    then obtain pre post where
      "show_additional (Suc i) ws = pre @ ''0x'' @ show_hex (unat w) @ post"
      using Cons.IH by blast
    then have "show_additional i (a # ws) =
        ((if i > 0 then '', '' else []) @ ''0x'' @ show_hex (unat a) @ pre)
          @ ''0x'' @ show_hex (unat w) @ post"
      by simp
    then show ?thesis by blast
  qed
qed

lemma what_includes_additional:
  assumes "w \<in> set additional"
  shows "\<exists>pre post. what (RequestFailed service status additional) =
           pre @ ''0x'' @ show_hex (unat w) @ post"
proof -
  obtain pre post where
    "show_additional 0 additional = pre @ ''0x'' @ show_hex (unat w) @ post"
    using show_additional_includes [OF assms] by blast
  moreover have "additional \<noteq> []"
    using assms by auto
  ultimately have "what (RequestFailed service status additional) =
      (''CIP request failed: service=0x'' @ show_hex (unat service)
         @ '' status=0x'' @ show_hex (unat status) @ '' additional=['' @ pre)
        @ ''0x'' @ show_hex (unat w) @ (post @ '']'')"
    by simp
  then show ?thesis by blast
qed

lemma length_memcpy_result:
  "n * 4 \<le> length raw \<Longrightarrow>
     length (array_values (memcpy (array_bytes (replicate n 0)) 0 raw (n * 4))) = n"
  by (simp add: memcpy_result length_array_values min_absorb2)

lemma readFloat_length:
  "fst (readFloat send c file element count) = Inr vs \<Longrightarrow> length vs = unat count"
  by (auto simp: readFloat_def Let_def length_memcpy_result not_less
      split: prod.splits sum.splits if_splits)

lemma readInt32_length:
  "fst (readInt32 send c file element count) = Inr vs \<Longrightarrow> length vs = unat count"
  by (auto simp: readInt32_def Let_def length_memcpy_result not_less
      split: prod.splits sum.splits if_splits)

lemma long_array_never_read_back:
  assumes "65536 \<le> length values"
  shows "fst (readFloat send c file element count) \<noteq> Inr values"
proof
  assume "fst (readFloat send c file element count) = Inr values"
  then have "length values = unat count"
    by (rule readFloat_length)
  moreover have "unat count < 65536"
    using unsigned_less [of count, where ?'a = nat] by simp
  ultimately show False
    using assms by simp
qed

section \<open>Properties of the payload codec\<close>

text \<open>
  C1. For every file, element and count, \<open>buildReadPayload\<close> returns exactly six bytes:
  file, element and count in that order, each as a little-endian 16-bit field (the low
  byte \<open>x mod 256\<close> first, the high byte \<open>x div 256\<close> second). File 57, element 30,
  count 1 gives 39 00 1E 00 01 00 (hexadecimal). The count is not validated: the function
  has no failure case, and the counts 0 and 65535 come through as 00 00 and FF FF.
\<close>

theorem buildReadPayload_layout:
  "length (buildReadPayload file element count) = 6
   \<and> map unat (buildReadPayload file element count) =
       [unat file mod 256, unat file div 256,
        unat element mod 256, unat element div 256,
        unat count mod 256, unat count div 256]
   \<and> buildReadPayload 57 30 1 = [0x39, 0x00, 0x1E, 0x00, 0x01, 0x00]
   \<and> drop 4 (buildReadPayload file element 0) = [0x00, 0x00]
   \<and> drop 4 (buildReadPayload file element 65535) = [0xFF, 0xFF]"
  by (simp add: buildReadPayload_bytes unat_low_byte unat_high_byte)

text \<open>
  C2. As stated, for every value array, the claim fails: the count of
  \<open>buildWritePayload\<close> is a \<open>uint16_t\<close>, and the accessors cast the array length to
  it, so an array of 65536 values gives a payload of 6 bytes, not of \<open>6 + 4 * 65536\<close>.
\<close>

theorem buildWritePayload_length_counterexample:
  "length (buildWritePayload 0 0 (replicate 65536 0) (of_nat (length (replicate 65536 (0 :: float32)))))
     \<noteq> 6 + 4 * length (replicate 65536 (0 :: float32))"
  by (simp add: buildWritePayload_bytes buildReadPayload_bytes array_bytes_def)

text \<open>
  C2, amended. For every file and element and every value array of fewer than 65536
  values, \<open>buildWritePayload\<close>, called with the array length as count as the accessors
  call it, returns \<open>6 + 4 * len(values)\<close> bytes; the first six are
  \<open>buildReadPayload(file, element, len(values))\<close>, and the rest are the four bytes of
  each value in input order, least significant byte first.
\<close>

theorem buildWritePayload_layout:
  "length values < 65536 \<Longrightarrow>
     length (buildWritePayload file element values (of_nat (length values))) = 6 + 4 * length values
     \<and> take 6 (buildWritePayload file element values (of_nat (length values))) =
         buildReadPayload file element (of_nat (length values))
     \<and> map unat (drop 6 (buildWritePayload file element values (of_nat (length values)))) =
         concat (map (\<lambda>v. [unat v mod 256, unat v div 256 mod 256, unat v div 65536 mod 256,
                             unat v div 16777216]) values)"
  by (simp add: buildWritePayload_bytes unat_count_cast length_array_bytes unat_array_bytes
      buildReadPayload_bytes)

theorem buildWritePayload_layout_witness:
  "length [0x4048F5C3 :: float32] < 65536
   \<and> buildWritePayload 57 33 [0x4048F5C3] 1 = [0x39, 0x00, 0x21, 0x00, 0x01, 0x00, 0xC3, 0xF5, 0x48, 0x40]
   \<and> length (buildWritePayload 57 33 [0x4048F5C3] 1) = 10
   \<and> take 6 (buildWritePayload 57 33 [0x4048F5C3] 1) = buildReadPayload 57 33 1
   \<and> map unat (drop 6 (buildWritePayload 57 33 [0x4048F5C3] 1)) = [195, 245, 72, 64]"
  using buildWritePayload_layout [of "[0x4048F5C3]" 57 33]
  by (simp add: buildWritePayload_bytes buildReadPayload_bytes array_bytes_def object_bytes_def)

section \<open>Properties of the typed accessors\<close>

text \<open>
  C3. As stated, for every response with fewer than \<open>4 * count\<close> data bytes, the claim
  fails: the executor checks the general status before the accessor looks at the size.
  A response with status \<open>0x08\<close> and no data to \<open>readFloat(57, 30, 1)\<close> is short of
  the four bytes, and the accessor fails with the status error of the executor, not with
  the size-mismatch error; \<open>readInt32\<close> does the same.
\<close>

theorem read_size_check_counterexample:
  "length (getData \<lparr>getGeneralStatusCode = 0x08, getAdditionalStatus = [], getData = []\<rparr>)
     < 4 * unat (1 :: u16)
   \<and> fst (readFloat
          (\<lambda>rq. Inr \<lparr>getGeneralStatusCode = 0x08, getAdditionalStatus = [], getData = []\<rparr>)
          \<lparr>plcAddress = ''192.168.17.200'', port = 0xAF12, sessionInfo = Some (1 :: nat)\<rparr>
          57 30 1) = Inl (RequestFailed 0x4B 0x08 [])
   \<and> fst (readFloat
          (\<lambda>rq. Inr \<lparr>getGeneralStatusCode = 0x08, getAdditionalStatus = [], getData = []\<rparr>)
          \<lparr>plcAddress = ''192.168.17.200'', port = 0xAF12, sessionInfo = Some (1 :: nat)\<rparr>
          57 30 1) \<noteq> Inl (SizeMismatch ''readFloat'' 4 0)
   \<and> fst (readInt32
          (\<lambda>rq. Inr \<lparr>getGeneralStatusCode = 0x08, getAdditionalStatus = [], getData = []\<rparr>)
          \<lparr>plcAddress = ''192.168.17.200'', port = 0xAF12, sessionInfo = Some (1 :: nat)\<rparr>
          57 30 1) \<noteq> Inl (SizeMismatch ''readInt32'' 4 0)"
  by (simp add: readFloat_def readInt32_def executeRequest_connected SUCCESS_def SVC_READ_LSB_def)

text \<open>
  C3, amended. For every file, element and count, on a connected client whose read
  request the transport answers with general status success: when the response has fewer
  than \<open>4 * count\<close> data bytes, \<open>readFloat\<close> and \<open>readInt32\<close> fail with the
  size-mismatch error, whose message gives the expected and the actual number of bytes,
  and return no values; when it has at least \<open>4 * count\<close> bytes, they return the
  \<open>count\<close> 32-bit values held by the first \<open>4 * count\<close> bytes, whatever follows
  them.
\<close>

theorem read_size_check:
  assumes "sessionInfo c = Some s"
    and "send (SendRequest s SVC_READ_LSB (EPath REGISTER_MAP_CLASS REGISTER_MAP_INSTANCE)
                 (buildReadPayload file element count)) = Inr resp"
    and "getGeneralStatusCode resp = SUCCESS"
  shows "fst (readFloat send c file element count) =
           (if length (getData resp) < 4 * unat count
            then Inl (SizeMismatch ''readFloat'' (4 * unat count) (length (getData resp)))
            else Inr (array_values (take (4 * unat count) (getData resp))))
       \<and> fst (readInt32 send c file element count) =
           (if length (getData resp) < 4 * unat count
            then Inl (SizeMismatch ''readInt32'' (4 * unat count) (length (getData resp)))
            else Inr (array_values (take (4 * unat count) (getData resp))))
       \<and> what (SizeMismatch ''readFloat'' (4 * unat count) (length (getData resp))) =
           ''readFloat: expected '' @ show_dec (4 * unat count) @ '' bytes, got ''
             @ show_dec (length (getData resp))
       \<and> what (SizeMismatch ''readInt32'' (4 * unat count) (length (getData resp))) =
           ''readInt32: expected '' @ show_dec (4 * unat count) @ '' bytes, got ''
             @ show_dec (length (getData resp))
       \<and> (4 * unat count \<le> length (getData resp) \<longrightarrow>
            length (array_values (take (4 * unat count) (getData resp))) = unat count)"
proof -
  have ex: "executeRequest send c SVC_READ_LSB (buildReadPayload file element count) =
      (Inr (getData resp),
       [SendRequest s SVC_READ_LSB (EPath REGISTER_MAP_CLASS REGISTER_MAP_INSTANCE)
          (buildReadPayload file element count)])"
    using assms by (rule executeRequest_success)
  have rf: "fst (readFloat send c file element count) =
           (if length (getData resp) < 4 * unat count
            then Inl (SizeMismatch ''readFloat'' (4 * unat count) (length (getData resp)))
            else Inr (array_values (take (4 * unat count) (getData resp))))"
    by (simp add: readFloat_def ex copied_values mult.commute)
  have ri: "fst (readInt32 send c file element count) =
           (if length (getData resp) < 4 * unat count
            then Inl (SizeMismatch ''readInt32'' (4 * unat count) (length (getData resp)))
            else Inr (array_values (take (4 * unat count) (getData resp))))"
    by (simp add: readInt32_def ex copied_values mult.commute)
  show ?thesis
    using rf ri by (simp add: length_copied_values)
qed

theorem read_size_check_witness:
  "fst (readFloat (\<lambda>rq. Inr \<lparr>getGeneralStatusCode = 0, getAdditionalStatus = [],
                               getData = [0xC3, 0xF5, 0x48, 0x40]\<rparr>)
          \<lparr>plcAddress = ''192.168.17.200'', port = 0xAF12, sessionInfo = Some (1 :: nat)\<rparr> 57 30 2)
     = Inl (SizeMismatch ''readFloat'' 8 4)
   \<and> what (SizeMismatch ''readFloat'' 8 4) = ''readFloat: expected 8 bytes, got 4''
   \<and> fst (readInt32 (\<lambda>rq. Inr \<lparr>getGeneralStatusCode = 0, getAdditionalStatus = [],
                               getData = [0xC3, 0xF5, 0x48, 0x40, 0xAA, 0xBB]\<rparr>)
          \<lparr>plcAddress = ''192.168.17.200'', port = 0xAF12, sessionInfo = Some (1 :: nat)\<rparr> 57 30 1)
     = Inr [0x4048F5C3]"
  using
    read_size_check [of "\<lparr>plcAddress = ''192.168.17.200'', port = 0xAF12, sessionInfo = Some (1 :: nat)\<rparr>" 1
      "\<lambda>rq. Inr \<lparr>getGeneralStatusCode = 0, getAdditionalStatus = [], getData = [0xC3, 0xF5, 0x48, 0x40]\<rparr>"
      57 30 2
      "\<lparr>getGeneralStatusCode = 0, getAdditionalStatus = [], getData = [0xC3, 0xF5, 0x48, 0x40]\<rparr>"]
    read_size_check [of "\<lparr>plcAddress = ''192.168.17.200'', port = 0xAF12, sessionInfo = Some (1 :: nat)\<rparr>" 1
      "\<lambda>rq. Inr \<lparr>getGeneralStatusCode = 0, getAdditionalStatus = [], getData = [0xC3, 0xF5, 0x48, 0x40, 0xAA, 0xBB]\<rparr>"
      57 30 1
      "\<lparr>getGeneralStatusCode = 0, getAdditionalStatus = [], getData = [0xC3, 0xF5, 0x48, 0x40, 0xAA, 0xBB]\<rparr>"]
  by (simp add: SUCCESS_def show_dec.simps digit_char_def object_value_def)

text \<open>
  C6. As stated, for every array, the round trip fails for the same reason as C2: of an
  array of 65536 values the accessors encode none (the count is cast to 0), and reading
  the empty data back gives the empty array. By \<open>long_array_never_read_back\<close> no read,
  whatever its count, returns an array that long.
\<close>

theorem write_read_round_trip_counterexample:
  "fst (readFloat
          (\<lambda>rq. Inr \<lparr>getGeneralStatusCode = SUCCESS, getAdditionalStatus = [],
                       getData = drop 6 (buildWritePayload 57 33 (replicate 65536 0)
                                           (of_nat (length (replicate 65536 (0 :: float32)))))\<rparr>)
          \<lparr>plcAddress = ''192.168.17.200'', port = 0xAF12, sessionInfo = Some (1 :: nat)\<rparr>
          57 33 (of_nat (length (replicate 65536 (0 :: float32)))))
     \<noteq> Inr (replicate 65536 0)"
  by (simp add: readFloat_def executeRequest_connected buildWritePayload_bytes
      buildReadPayload_bytes array_bytes_def memcpy_def)

text \<open>
  C6, amended. For every array of fewer than 65536 floats, encoding it with
  \<open>buildWritePayload\<close> and handing the bytes after the 6-byte header to \<open>readFloat\<close> as
  response data gives back the original array, bit for bit; the same holds for
  \<open>int32\<close> arrays and \<open>readInt32\<close>.
\<close>

theorem write_read_round_trip:
  assumes "length values < 65536" and "sessionInfo c = Some s"
  shows "fst (readFloat
                (\<lambda>rq. Inr \<lparr>getGeneralStatusCode = SUCCESS, getAdditionalStatus = [],
                             getData = drop 6 (buildWritePayload file element values
                                                 (of_nat (length values)))\<rparr>)
                c file element (of_nat (length values))) = Inr values
       \<and> fst (readInt32
                (\<lambda>rq. Inr \<lparr>getGeneralStatusCode = SUCCESS, getAdditionalStatus = [],
                             getData = drop 6 (buildWritePayload file element values
                                                 (of_nat (length values)))\<rparr>)
                c file element (of_nat (length values))) = Inr values"
proof -
  have n: "unat (of_nat (length values) :: u16) = length values"
    using assms(1) by (simp add: unat_count_cast)
  have d: "drop 6 (buildWritePayload file element values (of_nat (length values))) = array_bytes values"
    by (simp add: buildWritePayload_bytes buildReadPayload_bytes n)
  have v: "array_values
             (memcpy (array_bytes (replicate (length values) 0)) 0 (array_bytes values)
                (length values * 4)) = values"
    by (simp add: memcpy_result length_array_bytes array_values_bytes)
  show ?thesis
    using assms(2)
    by (simp add: readFloat_def readInt32_def executeRequest_connected d n v length_array_bytes)
qed

theorem write_read_round_trip_witness:
  "fst (readFloat
          (\<lambda>rq. Inr \<lparr>getGeneralStatusCode = SUCCESS, getAdditionalStatus = [],
                       getData = drop 6 (buildWritePayload 57 33 [0x4048F5C3, 0x3F800000] 2)\<rparr>)
          \<lparr>plcAddress = ''192.168.17.200'', port = 0xAF12, sessionInfo = Some (1 :: nat)\<rparr>
          57 33 2) = Inr [0x4048F5C3, 0x3F800000]
   \<and> drop 6 (buildWritePayload 57 33 [0x4048F5C3, 0x3F800000] 2) =
        [0xC3, 0xF5, 0x48, 0x40, 0x00, 0x00, 0x80, 0x3F]"
  using write_read_round_trip [of "[0x4048F5C3, 0x3F800000]"
      "\<lparr>plcAddress = ''192.168.17.200'', port = 0xAF12, sessionInfo = Some (1 :: nat)\<rparr>" 1 57 33]
  by (simp add: buildWritePayload_bytes buildReadPayload_bytes array_bytes_def object_bytes_def)

text \<open>
  C10. \<open>writeFloat\<close> and \<open>writeInt32\<close> cast the array length to \<open>uint16_t\<close> before
  they build the payload. For every value array the payload handed to the executor has
  the count field \<open>len(values) mod 65536\<close> (low byte, then high byte) and the bytes of
  the first \<open>len(values) mod 65536\<close> values only; the accessor fails exactly when the
  executor fails, so an array of 65536 or more values is truncated, not rejected.
\<close>

theorem write_count_truncated:
  "writeFloat send c file element values =
     (map_sum id (\<lambda>raw. ())
        (fst (executeRequest send c SVC_WRITE_LSB
                (buildReadPayload file element (of_nat (length values))
                   @ array_bytes (take (length values mod 65536) values)))),
      snd (executeRequest send c SVC_WRITE_LSB
             (buildReadPayload file element (of_nat (length values))
                @ array_bytes (take (length values mod 65536) values))))
   \<and> writeInt32 send c file element values =
     (map_sum id (\<lambda>raw. ())
        (fst (executeRequest send c SVC_WRITE_LSB
                (buildReadPayload file element (of_nat (length values))
                   @ array_bytes (take (length values mod 65536) values)))),
      snd (executeRequest send c SVC_WRITE_LSB
             (buildReadPayload file element (of_nat (length values))
                @ array_bytes (take (length values mod 65536) values))))
   \<and> map unat (drop 4 (buildReadPayload file element (of_nat (length values)))) =
       [length values mod 65536 mod 256, length values mod 65536 div 256]
   \<and> length (array_bytes (take (length values mod 65536) values)) =
       4 * (length values mod 65536)"
proof -
  have m: "length values mod 65536 \<le> length values"
    by simp
  show ?thesis
    by (simp add: writeFloat_def writeInt32_def buildWritePayload_bytes unat_count_cast
        buildReadPayload_bytes unat_low_byte unat_high_byte length_array_bytes min_absorb2 m
        split: prod.splits sum.splits)
qed

theorem write_count_truncated_witness:
  "writeFloat
     (\<lambda>rq. Inr \<lparr>getGeneralStatusCode = SUCCESS, getAdditionalStatus = [], getData = []\<rparr>)
     \<lparr>plcAddress = ''192.168.17.200'', port = 0xAF12, sessionInfo = Some (1 :: nat)\<rparr>
     57 33 (replicate 65537 0x3F800000) =
   (Inr (), [SendRequest 1 0x4C (EPath 0xC0 0x01)
               [0x39, 0x00, 0x21, 0x00, 0x01, 0x00, 0x00, 0x00, 0x80, 0x3F]])"
  using write_count_truncated [of
      "\<lambda>rq. Inr \<lparr>getGeneralStatusCode = SUCCESS, getAdditionalStatus = [], getData = []\<rparr>"
      "\<lparr>plcAddress = ''192.168.17.200'', port = 0xAF12, sessionInfo = Some (1 :: nat)\<rparr>"
      57 33 "replicate 65537 0x3F800000"]
  by (simp add: executeRequest_connected buildReadPayload_bytes array_bytes_def object_bytes_def
      SVC_WRITE_LSB_def REGISTER_MAP_CLASS_def REGISTER_MAP_INSTANCE_def)

section \<open>Properties of the request executor\<close>

text \<open>
  C4. For every service code and payload of a connected client whose request the
  transport answers: when the general status of the response is not success, the request
  executor fails, and so do \<open>sendRawRequest\<close> and each typed accessor whose request it is,
  with the error built from the service code, the general status code and all the
  additional status words; nothing of the response data is returned. The message of that
  error has the status code in hexadecimal after \<open>status=0x\<close> and contains \<open>0x\<close>
  followed by the hexadecimal digits of every additional status word. When the general
  status is success, the executor returns the response data unchanged.
\<close>

theorem status_failure:
  assumes "sessionInfo c = Some s"
    and "send (SendRequest s service (EPath REGISTER_MAP_CLASS REGISTER_MAP_INSTANCE) payload) = Inr resp"
  shows "fst (executeRequest send c service payload) =
           (if getGeneralStatusCode resp \<noteq> SUCCESS
            then Inl (RequestFailed service (getGeneralStatusCode resp) (getAdditionalStatus resp))
            else Inr (getData resp))
       \<and> fst (sendRawRequest send c service payload) =
           (if getGeneralStatusCode resp \<noteq> SUCCESS
            then Inl (RequestFailed service (getGeneralStatusCode resp) (getAdditionalStatus resp))
            else Inr (getData resp))
       \<and> (service = SVC_READ_LSB \<and> payload = buildReadPayload file element count
            \<and> getGeneralStatusCode resp \<noteq> SUCCESS \<longrightarrow>
          fst (readFloat send c file element count) =
            Inl (RequestFailed service (getGeneralStatusCode resp) (getAdditionalStatus resp))
          \<and> fst (readInt32 send c file element count) =
            Inl (RequestFailed service (getGeneralStatusCode resp) (getAdditionalStatus resp)))
       \<and> (service = SVC_WRITE_LSB
            \<and> payload = buildWritePayload file element values (of_nat (length values))
            \<and> getGeneralStatusCode resp \<noteq> SUCCESS \<longrightarrow>
          fst (writeFloat send c file element values) =
            Inl (RequestFailed service (getGeneralStatusCode resp) (getAdditionalStatus resp))
          \<and> fst (writeInt32 send c file element values) =
            Inl (RequestFailed service (getGeneralStatusCode resp) (getAdditionalStatus resp)))
       \<and> what (RequestFailed service (getGeneralStatusCode resp) (getAdditionalStatus resp)) =
           ''CIP request failed: service=0x'' @ show_hex (unat service)
             @ '' status=0x'' @ show_hex (unat (getGeneralStatusCode resp))
             @ (if getAdditionalStatus resp = [] then []
                else '' additional=['' @ show_additional 0 (getAdditionalStatus resp) @ '']'')
       \<and> (\<forall>w \<in> set (getAdditionalStatus resp). \<exists>pre post.
             what (RequestFailed service (getGeneralStatusCode resp) (getAdditionalStatus resp)) =
               pre @ ''0x'' @ show_hex (unat w) @ post)"
proof -
  let ?err = "RequestFailed service (getGeneralStatusCode resp) (getAdditionalStatus resp)"
  have ex: "fst (executeRequest send c service payload) =
           (if getGeneralStatusCode resp \<noteq> SUCCESS then Inl ?err else Inr (getData resp))"
    using assms by (simp add: executeRequest_connected)
  have raw: "fst (sendRawRequest send c service payload) =
           (if getGeneralStatusCode resp \<noteq> SUCCESS then Inl ?err else Inr (getData resp))"
    using ex by (simp add: sendRawRequest_def)
  have rd: "service = SVC_READ_LSB \<and> payload = buildReadPayload file element count
            \<and> getGeneralStatusCode resp \<noteq> SUCCESS \<longrightarrow>
          fst (readFloat send c file element count) = Inl ?err
          \<and> fst (readInt32 send c file element count) = Inl ?err"
  proof
    assume h: "service = SVC_READ_LSB \<and> payload = buildReadPayload file element count
            \<and> getGeneralStatusCode resp \<noteq> SUCCESS"
    then have "fst (executeRequest send c SVC_READ_LSB (buildReadPayload file element count)) =
        Inl ?err"
      using ex by simp
    then show "fst (readFloat send c file element count) = Inl ?err
          \<and> fst (readInt32 send c file element count) = Inl ?err"
      by (simp add: readFloat_failure readInt32_failure)
  qed
  have wr: "service = SVC_WRITE_LSB
            \<and> payload = buildWritePayload file element values (of_nat (length values))
            \<and> getGeneralStatusCode resp \<noteq> SUCCESS \<longrightarrow>
          fst (writeFloat send c file element values) = Inl ?err
          \<and> fst (writeInt32 send c file element values) = Inl ?err"
  proof
    assume h: "service = SVC_WRITE_LSB
            \<and> payload = buildWritePayload file element values (of_nat (length values))
            \<and> getGeneralStatusCode resp \<noteq> SUCCESS"
    then have "fst (executeRequest send c SVC_WRITE_LSB
                      (buildWritePayload file element values (of_nat (length values)))) = Inl ?err"
      using ex by simp
    then show "fst (writeFloat send c file element values) = Inl ?err
          \<and> fst (writeInt32 send c file element values) = Inl ?err"
      by (simp add: writeFloat_failure writeInt32_failure)
  qed
  have msg: "what ?err =
           ''CIP request failed: service=0x'' @ show_hex (unat service)
             @ '' status=0x'' @ show_hex (unat (getGeneralStatusCode resp))
             @ (if getAdditionalStatus resp = [] then []
                else '' additional=['' @ show_additional 0 (getAdditionalStatus resp) @ '']'')"
    by simp
  have inc: "\<forall>w \<in> set (getAdditionalStatus resp). \<exists>pre post.
             what ?err = pre @ ''0x'' @ show_hex (unat w) @ post"
    using what_includes_additional by blast
  show ?thesis
    by (intro conjI; (fact ex | fact raw | fact rd | fact wr | fact msg | fact inc))
qed

theorem status_failure_witness:
  "fst (readFloat
          (\<lambda>rq. Inr \<lparr>getGeneralStatusCode = 0x08, getAdditionalStatus = [0x1234, 0xFF],
                       getData = [1, 2, 3, 4]\<rparr>)
          \<lparr>plcAddress = ''192.168.17.200'', port = 0xAF12, sessionInfo = Some (1 :: nat)\<rparr>
          57 30 1) = Inl (RequestFailed 0x4B 0x08 [0x1234, 0xFF])
   \<and> what (RequestFailed 0x4B 0x08 [0x1234, 0xFF]) =
       ''CIP request failed: service=0x4b status=0x8 additional=[0x1234, 0xff]''
   \<and> fst (sendRawRequest
          (\<lambda>rq. Inr \<lparr>getGeneralStatusCode = 0x00, getAdditionalStatus = [],
                       getData = [1, 2, 3, 4]\<rparr>)
          \<lparr>plcAddress = ''192.168.17.200'', port = 0xAF12, sessionInfo = Some (1 :: nat)\<rparr>
          0x4B [0x39, 0x00, 0x1E, 0x00, 0x01, 0x00]) = Inr [1, 2, 3, 4]
   \<and> fst (writeFloat
          (\<lambda>rq. Inr \<lparr>getGeneralStatusCode = 0x1E, getAdditionalStatus = [],
                       getData = []\<rparr>)
          \<lparr>plcAddress = ''192.168.17.200'', port = 0xAF12, sessionInfo = Some (1 :: nat)\<rparr>
          57 33 [0x4048F5C3]) = Inl (RequestFailed 0x4C 0x1E [])
   \<and> what (RequestFailed 0x4C 0x1E []) = ''CIP request failed: service=0x4c status=0x1e''"
  using
    status_failure [of
      "\<lparr>plcAddress = ''192.168.17.200'', port = 0xAF12, sessionInfo = Some (1 :: nat)\<rparr>" 1
      "\<lambda>rq. Inr \<lparr>getGeneralStatusCode = 0x1E, getAdditionalStatus = [], getData = []\<rparr>"
      "0x4C" "buildWritePayload 57 33 [0x4048F5C3] (of_nat (length [0x4048F5C3 :: float32]))"
      "\<lparr>getGeneralStatusCode = 0x1E, getAdditionalStatus = [], getData = []\<rparr>"
      57 33 _ "[0x4048F5C3]"]
    status_failure [of
      "\<lparr>plcAddress = ''192.168.17.200'', port = 0xAF12, sessionInfo = Some (1 :: nat)\<rparr>" 1
      "\<lambda>rq. Inr \<lparr>getGeneralStatusCode = 0x08, getAdditionalStatus = [0x1234, 0xFF],
                   getData = [1, 2, 3, 4]\<rparr>"
      "0x4B" "buildReadPayload 57 30 1"
      "\<lparr>getGeneralStatusCode = 0x08, getAdditionalStatus = [0x1234, 0xFF], getData = [1, 2, 3, 4]\<rparr>"
      57 30 1]
    status_failure [of
      "\<lparr>plcAddress = ''192.168.17.200'', port = 0xAF12, sessionInfo = Some (1 :: nat)\<rparr>" 1
      "\<lambda>rq. Inr \<lparr>getGeneralStatusCode = 0x00, getAdditionalStatus = [], getData = [1, 2, 3, 4]\<rparr>"
      "0x4B" "[0x39, 0x00, 0x1E, 0x00, 0x01, 0x00]"
      "\<lparr>getGeneralStatusCode = 0x00, getAdditionalStatus = [], getData = [1, 2, 3, 4]\<rparr>"]
  by (simp add: SUCCESS_def SVC_READ_LSB_def SVC_WRITE_LSB_def show_hex.simps digit_char_def)

text \<open>
  C5. When no session is active, each of \<open>readFloat\<close>, \<open>readInt32\<close>,
  \<open>writeFloat\<close>, \<open>writeInt32\<close> and \<open>sendRawRequest\<close> fails with the not-connected
  error and hands no request to the transport. No session is active on a new client and
  after \<open>disconnect\<close>, and \<open>connect\<close> leaves a session active exactly when it returns
  without an error.
\<close>

theorem not_connected:
  assumes "\<not> isConnected c"
  shows "readFloat send c file element count = (Inl NotConnected, [])
       \<and> readInt32 send c file element count = (Inl NotConnected, [])
       \<and> writeFloat send c file element values = (Inl NotConnected, [])
       \<and> writeInt32 send c file element values = (Inl NotConnected, [])
       \<and> sendRawRequest send c service payload = (Inl NotConnected, [])
       \<and> what NotConnected = ''Not connected - call connect() first''
       \<and> \<not> isConnected (RMC75EClient address p :: 's client)
       \<and> \<not> isConnected (disconnect c')
       \<and> isConnected (snd (connect make_session c)) = (fst (connect make_session c) = Inr ())"
proof -
  have n: "sessionInfo c = None"
    using assms by (simp add: isConnected_def)
  show ?thesis
    by (simp add: readFloat_def readInt32_def writeFloat_def writeInt32_def sendRawRequest_def
        executeRequest_disconnected n isConnected_def RMC75EClient_def disconnect_def connect_def
        split: option.splits sum.splits)
qed

theorem not_connected_witness:
  "\<not> isConnected (RMC75EClient ''192.168.17.200'' default_port :: nat client)
   \<and> readFloat (\<lambda>rq. Inr \<lparr>getGeneralStatusCode = 0, getAdditionalStatus = [], getData = [1, 2, 3, 4]\<rparr>)
        (RMC75EClient ''192.168.17.200'' default_port :: nat client) 57 30 1 = (Inl NotConnected, [])
   \<and> writeFloat (\<lambda>rq. Inr \<lparr>getGeneralStatusCode = 0, getAdditionalStatus = [], getData = []\<rparr>)
        (disconnect (snd (connect (\<lambda>a p. Inr 1) (RMC75EClient ''192.168.17.200'' default_port :: nat client))))
        57 33 [0x4048F5C3] = (Inl NotConnected, [])"
proof -
  have fresh: "\<not> isConnected (RMC75EClient ''192.168.17.200'' default_port :: nat client)"
    by (simp add: isConnected_def RMC75EClient_def)
  have closed: "\<not> isConnected (disconnect (snd (connect (\<lambda>a p. Inr 1)
      (RMC75EClient ''192.168.17.200'' default_port :: nat client))))"
    by (simp add: isConnected_def RMC75EClient_def disconnect_def connect_def)
  have r: "readFloat (\<lambda>rq. Inr \<lparr>getGeneralStatusCode = 0, getAdditionalStatus = [], getData = [1, 2, 3, 4]\<rparr>)
        (RMC75EClient ''192.168.17.200'' default_port :: nat client) 57 30 1 = (Inl NotConnected, [])"
    using not_connected [OF fresh] by blast
  have w: "writeFloat (\<lambda>rq. Inr \<lparr>getGeneralStatusCode = 0, getAdditionalStatus = [], getData = []\<rparr>)
        (disconnect (snd (connect (\<lambda>a p. Inr 1) (RMC75EClient ''192.168.17.200'' default_port :: nat client))))
        57 33 [0x4048F5C3] = (Inl NotConnected, [])"
    using not_connected [OF closed] by blast
  show ?thesis
    using fresh r w by (intro conjI)
qed

text \<open>
  C7. Every request handed to the transport has the path of class \<open>0xC0\<close>, instance
  \<open>0x01\<close>. \<open>readFloat\<close> and \<open>readInt32\<close> send service \<open>0x4B\<close>, \<open>writeFloat\<close> and
  \<open>writeInt32\<close> send \<open>0x4C\<close>, none of them ever sends \<open>0x4D\<close> or \<open>0x4E\<close>, and
  \<open>sendRawRequest\<close> is the executor on the same service code and payload, which reach
  the transport unchanged.
\<close>

theorem request_target_and_service:
  "snd (readFloat send c file element count) =
     (case sessionInfo c of
        None \<Rightarrow> []
      | Some s \<Rightarrow> [SendRequest s 0x4B (EPath 0xC0 0x01) (buildReadPayload file element count)])
   \<and> snd (readInt32 send c file element count) =
     (case sessionInfo c of
        None \<Rightarrow> []
      | Some s \<Rightarrow> [SendRequest s 0x4B (EPath 0xC0 0x01) (buildReadPayload file element count)])
   \<and> snd (writeFloat send c file element values) =
     (case sessionInfo c of
        None \<Rightarrow> []
      | Some s \<Rightarrow> [SendRequest s 0x4C (EPath 0xC0 0x01)
                    (buildWritePayload file element values (of_nat (length values)))])
   \<and> snd (writeInt32 send c file element values) =
     (case sessionInfo c of
        None \<Rightarrow> []
      | Some s \<Rightarrow> [SendRequest s 0x4C (EPath 0xC0 0x01)
                    (buildWritePayload file element values (of_nat (length values)))])
   \<and> sendRawRequest send c service payload = executeRequest send c service payload
   \<and> snd (executeRequest send c service payload) =
     (case sessionInfo c of
        None \<Rightarrow> []
      | Some s \<Rightarrow> [SendRequest s service (EPath 0xC0 0x01) payload])
   \<and> (\<forall>rq \<in> set (snd (readFloat send c file element count)
                   @ snd (readInt32 send c file element count)
                   @ snd (writeFloat send c file element values)
                   @ snd (writeInt32 send c file element values)).
         req_service rq \<noteq> SVC_READ_MSB \<and> req_service rq \<noteq> SVC_WRITE_MSB
         \<and> req_service rq \<noteq> 0x4D \<and> req_service rq \<noteq> 0x4E)
   \<and> (\<forall>rq \<in> set (snd (readFloat send c file element count)
                   @ snd (readInt32 send c file element count)
                   @ snd (writeFloat send c file element values)
                   @ snd (writeInt32 send c file element values)
                   @ snd (sendRawRequest send c service payload)).
         classId (req_path rq) = 0xC0 \<and> objectId (req_path rq) = 0x01)"
  by (cases "sessionInfo c")
    (simp_all add: readFloat_sent readInt32_sent writeFloat_sent writeInt32_sent
      executeRequest_sent sendRawRequest_def SVC_READ_LSB_def SVC_WRITE_LSB_def SVC_READ_MSB_def
      SVC_WRITE_MSB_def)

theorem request_target_and_service_witness:
  "snd (readFloat (\<lambda>rq. Inr \<lparr>getGeneralStatusCode = 0, getAdditionalStatus = [], getData = [1, 2, 3, 4]\<rparr>)
          \<lparr>plcAddress = ''192.168.17.200'', port = 0xAF12, sessionInfo = Some (1 :: nat)\<rparr> 57 30 1) =
     [SendRequest 1 0x4B (EPath 0xC0 0x01) [0x39, 0x00, 0x1E, 0x00, 0x01, 0x00]]
   \<and> snd (writeInt32 (\<lambda>rq. Inr \<lparr>getGeneralStatusCode = 0, getAdditionalStatus = [], getData = []\<rparr>)
          \<lparr>plcAddress = ''192.168.17.200'', port = 0xAF12, sessionInfo = Some (1 :: nat)\<rparr> 57 32 [7]) =
     [SendRequest 1 0x4C (EPath 0xC0 0x01) [0x39, 0x00, 0x20, 0x00, 0x01, 0x00, 0x07, 0x00, 0x00, 0x00]]
   \<and> snd (sendRawRequest (\<lambda>rq. Inr \<lparr>getGeneralStatusCode = 0, getAdditionalStatus = [], getData = []\<rparr>)
          \<lparr>plcAddress = ''192.168.17.200'', port = 0xAF12, sessionInfo = Some (1 :: nat)\<rparr> 0x4D [0xAB]) =
     [SendRequest 1 0x4D (EPath 0xC0 0x01) [0xAB]]"
  using
    request_target_and_service [of
      "\<lambda>rq. Inr \<lparr>getGeneralStatusCode = 0, getAdditionalStatus = [], getData = [1, 2, 3, 4]\<rparr>"
      "\<lparr>plcAddress = ''192.168.17.200'', port = 0xAF12, sessionInfo = Some (1 :: nat)\<rparr>" 57 30 1]
    request_target_and_service [of
      "\<lambda>rq. Inr \<lparr>getGeneralStatusCode = 0, getAdditionalStatus = [], getData = []\<rparr>"
      "\<lparr>plcAddress = ''192.168.17.200'', port = 0xAF12, sessionInfo = Some (1 :: nat)\<rparr>" 57 32 _ "[7]"
      "0x4D" "[0xAB]"]
  by (simp add: buildReadPayload_bytes buildWritePayload_bytes array_bytes_def object_bytes_def)

section \<open>Properties of connection management\<close>

text \<open>
  C8. \<open>connect\<close> and \<open>disconnect\<close> are idempotent. \<open>connect\<close> on a connected client
  returns normally without creating a session (whatever creation would give) and leaves
  the client, with its session, as it was; so does a second \<open>connect\<close> after a
  successful one. \<open>disconnect\<close> on a client without session leaves it as it was, and
  \<open>disconnect\<close> twice is \<open>disconnect\<close> once. After any sequence of the two calls,
  \<open>isConnected\<close> holds exactly when the last call that changed the state was a
  \<open>connect\<close>; when no call changed it, the client is as connected as at the start, and
  a new client is not.
\<close>

theorem connection_idempotent:
  "(isConnected c \<longrightarrow> connect make_session c = (Inr (), c))
   \<and> (\<not> isConnected c \<longrightarrow> disconnect c = c)
   \<and> (fst (connect make_session c) = Inr () \<longrightarrow>
        connect make_session' (snd (connect make_session c)) = (Inr (), snd (connect make_session c)))
   \<and> disconnect (disconnect c) = disconnect c
   \<and> \<not> isConnected (disconnect c)
   \<and> isConnected (foldl perform c calls) =
       (if changes c calls = [] then isConnected c
        else \<exists>make_session. last (changes c calls) = Connect make_session)
   \<and> isConnected (foldl perform (RMC75EClient address p) calls) =
       (changes (RMC75EClient address p) calls \<noteq> []
        \<and> (\<exists>make_session. last (changes (RMC75EClient address p) calls) = Connect make_session))"
proof -
  have fresh: "\<not> isConnected (RMC75EClient address p :: 'a client)"
    by (simp add: isConnected_def RMC75EClient_def)
  have seq: "isConnected (foldl perform (RMC75EClient address p :: 'a client) calls) =
       (changes (RMC75EClient address p) calls \<noteq> []
        \<and> (\<exists>make_session. last (changes (RMC75EClient address p) calls) = Connect make_session))"
    using isConnected_after [of "RMC75EClient address p" calls] fresh by auto
  show ?thesis
    using seq
    by (simp add: connect_connected disconnect_disconnected connect_success isConnected_disconnect
        isConnected_after)
qed

theorem connection_idempotent_witness:
  "connect (\<lambda>a p. Inr 8)
     (snd (connect (\<lambda>a p. Inr 7) (RMC75EClient ''192.168.17.200'' default_port :: nat client))) =
     (Inr (), \<lparr>plcAddress = ''192.168.17.200'', port = default_port, sessionInfo = Some 7\<rparr>)
   \<and> disconnect (RMC75EClient ''192.168.17.200'' default_port :: nat client) =
       RMC75EClient ''192.168.17.200'' default_port
   \<and> isConnected (foldl perform (RMC75EClient ''192.168.17.200'' default_port :: nat client)
        [Disconnect, Connect (\<lambda>a p. Inl ''timeout''), Connect (\<lambda>a p. Inr 7), Connect (\<lambda>a p. Inr 8)])
   \<and> \<not> isConnected (foldl perform (RMC75EClient ''192.168.17.200'' default_port :: nat client)
        [Connect (\<lambda>a p. Inr 7), Disconnect, Disconnect, Connect (\<lambda>a p. Inl ''timeout'')])"
proof -
  let ?c = "RMC75EClient ''192.168.17.200'' default_port :: nat client"
  have a: "isConnected (snd (connect (\<lambda>a p. Inr 7) ?c))"
    by (simp add: connect_def RMC75EClient_def isConnected_def)
  have b: "\<not> isConnected ?c"
    by (simp add: RMC75EClient_def isConnected_def)
  have c1: "changes ?c [Disconnect, Connect (\<lambda>a p. Inl ''timeout''), Connect (\<lambda>a p. Inr 7), Connect (\<lambda>a p. Inr 8)]
      = [Connect (\<lambda>a p. Inr 7)]"
    by (simp add: connect_def disconnect_def RMC75EClient_def)
  have c2: "changes ?c [Connect (\<lambda>a p. Inr 7), Disconnect, Disconnect, Connect (\<lambda>a p. Inl ''timeout'')]
      = [Connect (\<lambda>a p. Inr 7), Disconnect]"
    by (simp add: connect_def disconnect_def RMC75EClient_def)
  have "connect (\<lambda>a p. Inr 8) (snd (connect (\<lambda>a p. Inr 7) ?c)) = (Inr (), snd (connect (\<lambda>a p. Inr 7) ?c))"
    using a by (rule connection_idempotent [THEN conjunct1, THEN mp])
  moreover have "disconnect ?c = ?c"
    using b by (rule connection_idempotent [THEN conjunct2, THEN conjunct1, THEN mp])
  moreover have "isConnected (foldl perform ?c
        [Disconnect, Connect (\<lambda>a p. Inl ''timeout''), Connect (\<lambda>a p. Inr 7), Connect (\<lambda>a p. Inr 8)])"
    by (simp add: c1 connection_idempotent [THEN conjunct2, THEN conjunct2, THEN conjunct2,
          THEN conjunct2, THEN conjunct2, THEN conjunct1] del: changes.simps foldl.simps)
  moreover have "\<not> isConnected (foldl perform ?c
        [Connect (\<lambda>a p. Inr 7), Disconnect, Disconnect, Connect (\<lambda>a p. Inl ''timeout'')])"
    by (simp add: c2 connection_idempotent [THEN conjunct2, THEN conjunct2, THEN conjunct2,
          THEN conjunct2, THEN conjunct2, THEN conjunct1] del: changes.simps foldl.simps)
  ultimately show ?thesis
    by (simp add: connect_def RMC75EClient_def)
qed

text \<open>
  C9. When \<open>connect\<close> fails, session creation has thrown, the error wraps its message
  with the address, and the client state is the one before the call: the session is
  null and \<open>isConnected\<close> is false. A following \<open>connect\<close> creates a session again; its
  outcome is that of the new attempt.
\<close>

theorem connect_failure_state:
  assumes "fst (connect make_session c) = Inl e"
  shows "snd (connect make_session c) = c
       \<and> sessionInfo (snd (connect make_session c)) = None
       \<and> \<not> isConnected (snd (connect make_session c))
       \<and> (\<exists>msg. make_session (plcAddress c) (port c) = Inl msg
                 \<and> e = ConnectFailed (plcAddress c) msg
                 \<and> what e = ''Failed to connect to RMC75E at '' @ plcAddress c @ '': '' @ msg)
       \<and> connect make_session' (snd (connect make_session c)) =
           (case make_session' (plcAddress c) (port c) of
              Inr s \<Rightarrow> (Inr (), c\<lparr>sessionInfo := Some s\<rparr>)
            | Inl msg \<Rightarrow> (Inl (ConnectFailed (plcAddress c) msg), c))"
proof -
  have same: "snd (connect make_session c) = c"
    using assms by (rule connect_failure(1))
  have null: "sessionInfo c = None"
    using assms by (rule connect_failure(2))
  obtain msg where msg: "make_session (plcAddress c) (port c) = Inl msg"
      "e = ConnectFailed (plcAddress c) msg"
    using connect_failure(3) [OF assms] by blast
  have again: "connect make_session' c =
           (case make_session' (plcAddress c) (port c) of
              Inr s \<Rightarrow> (Inr (), c\<lparr>sessionInfo := Some s\<rparr>)
            | Inl msg \<Rightarrow> (Inl (ConnectFailed (plcAddress c) msg), c))"
    using null by (rule connect_disconnected)
  show ?thesis
    using same null msg again by (simp add: isConnected_def)
qed

theorem connect_failure_state_witness:
  "connect (\<lambda>a p. Inl ''timeout'') (RMC75EClient ''192.168.17.200'' default_port :: nat client) =
     (Inl (ConnectFailed ''192.168.17.200'' ''timeout''), RMC75EClient ''192.168.17.200'' default_port)
   \<and> what (ConnectFailed ''192.168.17.200'' ''timeout'') =
       ''Failed to connect to RMC75E at 192.168.17.200: timeout''
   \<and> \<not> isConnected (snd (connect (\<lambda>a p. Inl ''timeout'')
         (RMC75EClient ''192.168.17.200'' default_port :: nat client)))
   \<and> connect (\<lambda>a p. Inr 7)
        (snd (connect (\<lambda>a p. Inl ''timeout'') (RMC75EClient ''192.168.17.200'' default_port :: nat client))) =
     (Inr (), \<lparr>plcAddress = ''192.168.17.200'', port = default_port, sessionInfo = Some 7\<rparr>)"
proof -
  let ?c = "RMC75EClient ''192.168.17.200'' default_port :: nat client"
  have f: "fst (connect (\<lambda>a p. Inl ''timeout'') ?c) = Inl (ConnectFailed ''192.168.17.200'' ''timeout'')"
    by (simp add: connect_def RMC75EClient_def)
  show ?thesis
    using connect_failure_state [OF f, of "\<lambda>a p. Inr 7"] f
    by (simp add: RMC75EClient_def connect_def isConnected_def)
qed

end
